theory Spec2Isabelle
  imports Main "HOL-Library.AList"
begin

section \<open>The shopping-list worker (src/index.ts)\<close>

text \<open>
  The worker exports one handler, \<^verbatim>\<open>fetch(req, env)\<close>. It checks the path and the
  \<^verbatim>\<open>authorization\<close> header, logs in to the remote application, takes a handle to
  the collection \<^verbatim>\<open>cloudflare.shopping_list\<close> and runs one collection operation
  chosen by the HTTP method. The embedding follows the handler line by line. The remote
  application and its collection are a parameter of the handler (a record of operations
  over a state \<open>'s\<close>); every call that can throw returns a sum, \<open>Inl\<close> the value thrown.
\<close>

subsection \<open>JavaScript values\<close>

text \<open>
  An object identifier as \<^verbatim>\<open>new ObjectId(str)\<close> builds it, and the values the handler
  moves around: what \<^verbatim>\<open>req.json()\<close> parses, what the collection stores and returns,
  and \<^verbatim>\<open>undefined\<close>, which a destructured property has when the body lacks it.
  \<open>JObj\<close> lists the properties of an object in insertion order, a key at most once.
  Numbers are restricted to the integers.
\<close>

datatype oid = OID string

datatype jsval =
    JUndefined
  | JNull
  | JBool bool
  | JNum int
  | JStr string
  | JOid oid
  | JArr "jsval list"
  | JObj "(string \<times> jsval) list"

type_synonym properties = "(string \<times> jsval) list"

text \<open>
  An error object, as the JavaScript engine, the platform and the BSON library throw
  them: an \<^verbatim>\<open>Error\<close> whose \<^verbatim>\<open>message\<close> may be missing.
\<close>

datatype exn = Exn (message: "string option")

text \<open>
  What a \<^verbatim>\<open>catch\<close> clause can receive. JavaScript throws any value, and a promise
  rejects with any value: \<open>Nullish\<close> is a thrown \<^verbatim>\<open>null\<close> or \<^verbatim>\<open>undefined\<close>, on which
  reading a property throws in turn; \<open>Thrown e\<close> is any other thrown value, with the
  string its \<^verbatim>\<open>message\<close> property holds, if it holds one (a thrown primitive holds
  none; a \<^verbatim>\<open>message\<close> that is not a string is left out).
\<close>

datatype thrown = Thrown exn | Nullish

text \<open>JavaScript's \<^verbatim>\<open>ToBoolean\<close>, which \<^verbatim>\<open>||\<close>, \<^verbatim>\<open>!\<close> and \<^verbatim>\<open>if\<close> apply to a value.\<close>

fun truthy :: "jsval \<Rightarrow> bool" where
  "truthy JUndefined = False"
| "truthy JNull = False"
| "truthy (JBool b) = b"
| "truthy (JNum n) = (n \<noteq> 0)"
| "truthy (JStr s) = (s \<noteq> [])"
| "truthy (JOid i) = True"
| "truthy (JArr xs) = True"
| "truthy (JObj kvs) = True"

text \<open>\<^verbatim>\<open>typeof v === 'boolean'\<close>.\<close>

fun is_boolean :: "jsval \<Rightarrow> bool" where
  "is_boolean (JBool b) = True"
| "is_boolean v = False"

text \<open>
  Reading a property, \<^verbatim>\<open>v.k\<close> or \<^verbatim>\<open>const {k} = v\<close>: a property the object lacks reads
  as \<^verbatim>\<open>undefined\<close>, as does any of the three properties the handler reads on a
  primitive or an array; on \<^verbatim>\<open>null\<close> and \<^verbatim>\<open>undefined\<close> the read throws a TypeError
  (the message is the engine's).
\<close>

definition cannot_read :: exn where
  "cannot_read = Exn (Some ''Cannot read properties of null'')"

fun get_prop :: "jsval \<Rightarrow> string \<Rightarrow> exn + jsval" where
  "get_prop JUndefined k = Inl cannot_read"
| "get_prop JNull k = Inl cannot_read"
| "get_prop (JObj kvs) k = Inr (case map_of kvs k of None \<Rightarrow> JUndefined | Some v \<Rightarrow> v)"
| "get_prop v k = Inr JUndefined"

text \<open>
  \<^verbatim>\<open>const {name, purchased, quantity} = await req.json()\<close>, given the parsed body.
\<close>

definition destructure :: "jsval \<Rightarrow> exn + (jsval \<times> jsval \<times> jsval)" where
  "destructure b =
     (case get_prop b ''name'' of
        Inl e \<Rightarrow> Inl e
      | Inr name \<Rightarrow>
          (case get_prop b ''purchased'' of
             Inl e \<Rightarrow> Inl e
           | Inr purchased \<Rightarrow>
               (case get_prop b ''quantity'' of
                  Inl e \<Rightarrow> Inl e
                | Inr quantity \<Rightarrow> Inr (name, purchased, quantity))))"

subsection \<open>Requests and responses\<close>

text \<open>
  A request as the handler reads it: \<^verbatim>\<open>req.method\<close>, \<^verbatim>\<open>url.pathname\<close>,
  \<^verbatim>\<open>url.searchParams.get('id')\<close>, \<^verbatim>\<open>req.headers.get('authorization')\<close> (\<open>None\<close> is
  \<^verbatim>\<open>null\<close>) and the outcome of \<^verbatim>\<open>await req.json()\<close>, which rejects on a malformed body.
\<close>

record request =
  req_method :: string
  req_pathname :: string
  req_id :: "string option"
  req_authorization :: "string option"
  req_json :: "thrown + jsval"

record response =
  status :: nat
  body :: jsval

text \<open>
  Modelled from the spec: \<^verbatim>\<open>utils.reply\<close> and \<^verbatim>\<open>utils.toError\<close> (module
  \<^verbatim>\<open>./utils\<close>, not among the sources). The success formatter returns an HTTP 200
  response with the JSON body \<^verbatim>\<open>{ success: true, payload: <payload> }\<close>; the error
  formatter returns a response with the given status and the JSON body
  \<^verbatim>\<open>{ success: false, error: <message> }\<close>.
\<close>

definition reply :: "jsval \<Rightarrow> response" where
  "reply payload =
     \<lparr>status = 200, body = JObj [(''success'', JBool True), (''payload'', payload)]\<rparr>"

definition toError :: "string \<Rightarrow> nat \<Rightarrow> response" where
  "toError msg code =
     \<lparr>status = code, body = JObj [(''success'', JBool False), (''error'', JStr msg)]\<rparr>"

subsection \<open>The remote application\<close>

text \<open>
  The calls the handler makes on the Realm application, each a function of the remote
  state \<open>'s\<close> that returns the value it throws or its result, and the state after it:
  \<^item> \<open>logIn\<close>: the three calls of the first \<^verbatim>\<open>try\<close> block, \<^verbatim>\<open>Credentials.apiKey(token)\<close>,
    \<^verbatim>\<open>App.logIn(credentials)\<close> and \<^verbatim>\<open>user.mongoClient('mongodb-atlas')\<close>;
  \<^item> \<open>collection\<close>: \<^verbatim>\<open>client.db('cloudflare').collection('shopping_list')\<close>;
  \<^item> \<open>ObjectId\<close>: the constructor \<^verbatim>\<open>new ObjectId(str)\<close> of the BSON library, which reads no
    state and builds the identifier or throws an error object;
  \<^item> \<open>findOne i\<close>: \<^verbatim>\<open>collection.findOne({_id: i})\<close>; \<open>find_docs\<close>: \<^verbatim>\<open>collection.find()\<close>;
  \<^item> \<open>insertOne d\<close>: \<^verbatim>\<open>collection.insertOne(d)\<close>;
  \<^item> \<open>updateOne i u\<close>: \<^verbatim>\<open>collection.updateOne({_id: i}, {$set: u})\<close>;
  \<^item> \<open>deleteOne i\<close>: \<^verbatim>\<open>collection.deleteOne({_id: i})\<close>.
\<close>

record 's remote =
  logIn :: "string \<Rightarrow> 's \<Rightarrow> (thrown + unit) \<times> 's"
  collection :: "'s \<Rightarrow> (thrown + unit) \<times> 's"
  ObjectId :: "string \<Rightarrow> exn + oid"
  findOne :: "oid \<Rightarrow> 's \<Rightarrow> (thrown + jsval) \<times> 's"
  find_docs :: "'s \<Rightarrow> (thrown + jsval) \<times> 's"
  insertOne :: "properties \<Rightarrow> 's \<Rightarrow> (thrown + jsval) \<times> 's"
  updateOne :: "oid \<Rightarrow> properties \<Rightarrow> 's \<Rightarrow> (thrown + jsval) \<times> 's"
  deleteOne :: "oid \<Rightarrow> 's \<Rightarrow> (thrown + jsval) \<times> 's"

subsection \<open>The handler\<close>

text \<open>\<^verbatim>\<open>url.pathname.replace(/[/]$/, '')\<close>: one slash at the very end is removed.\<close>

definition strip_slash :: "string \<Rightarrow> string" where
  "strip_slash p = (if p \<noteq> [] \<and> last p = CHR ''/'' then butlast p else p)"

text \<open>\<^verbatim>\<open>url.searchParams.get('id') || ''\<close>: \<^verbatim>\<open>null\<close> and the empty string give \<^verbatim>\<open>''\<close>.\<close>

definition or_empty :: "string option \<Rightarrow> string" where
  "or_empty v = (case v of None \<Rightarrow> [] | Some x \<Rightarrow> (if x = [] then [] else x))"

definition unknown_url :: "string \<Rightarrow> string" where
  "unknown_url path =
     ''Unknown '' @ [CHR 0x22] @ path @ [CHR 0x22] @ '' URL; try '' @ [CHR 0x22]
       @ ''/api/shopping_list'' @ [CHR 0x22] @ '' instead.''"

definition missing_header :: string where
  "missing_header =
     ''Missing '' @ [CHR 0x22] @ ''authorization'' @ [CHR 0x22]
       @ '' header; try to add the header '' @ [CHR 0x22]
       @ ''authorization: REALM_API_KEY'' @ [CHR 0x22] @ ''.''"

text \<open>\<^verbatim>\<open>(err as Error).message || 'Error with query.'\<close>, for a value that has properties.\<close>

definition query_msg :: "exn \<Rightarrow> string" where
  "query_msg err =
     (case message err of
        None \<Rightarrow> ''Error with query.''
      | Some m \<Rightarrow> (if m = [] then ''Error with query.'' else m))"

text \<open>
  The outer \<^verbatim>\<open>catch\<close> clause (lines 158 to 161). On a thrown \<^verbatim>\<open>null\<close> or \<^verbatim>\<open>undefined\<close>
  the read of \<^verbatim>\<open>.message\<close> on line 159 throws a TypeError inside the clause, which
  nothing catches.
\<close>

definition outer_catch :: "thrown \<Rightarrow> thrown + response" where
  "outer_catch err =
     (case err of
        Nullish \<Rightarrow> Inl (Thrown cannot_read)
      | Thrown x \<Rightarrow> Inr (toError (query_msg x) 500))"

text \<open>The \<^verbatim>\<open>GET\<close> branch (lines 54 to 68).\<close>

definition GET_branch :: "'s remote \<Rightarrow> string \<Rightarrow> 's \<Rightarrow> (thrown + response) \<times> 's" where
  "GET_branch env itemID s =
     (if itemID \<noteq> [] then
        (case ObjectId env itemID of
           Inl e \<Rightarrow> (Inl (Thrown e), s)
         | Inr i \<Rightarrow>
             (case findOne env i s of
                (Inl e, s') \<Rightarrow> (Inl e, s')
              | (Inr d, s') \<Rightarrow> (Inr (reply d), s')))
      else
        (case find_docs env s of
           (Inl e, s') \<Rightarrow> (Inl e, s')
         | (Inr ds, s') \<Rightarrow> (Inr (reply ds), s')))"

text \<open>
  The document \<^verbatim>\<open>POST\<close> inserts (lines 75 to 77):
  \<^verbatim>\<open>{name: name, purchased: purchased || false, quantity: quantity}\<close>.
\<close>

definition POST_document :: "jsval \<Rightarrow> jsval \<Rightarrow> jsval \<Rightarrow> properties" where
  "POST_document name purchased quantity =
     [(''name'', name),
      (''purchased'', if truthy purchased then purchased else JBool False),
      (''quantity'', quantity)]"

text \<open>The \<^verbatim>\<open>POST\<close> branch (lines 71 to 80).\<close>

definition POST_branch :: "'s remote \<Rightarrow> request \<Rightarrow> 's \<Rightarrow> (thrown + response) \<times> 's" where
  "POST_branch env req s =
     (case req_json req of
        Inl e \<Rightarrow> (Inl e, s)
      | Inr b \<Rightarrow>
          (case destructure b of
             Inl e \<Rightarrow> (Inl (Thrown e), s)
           | Inr (name, purchased, quantity) \<Rightarrow>
               (case insertOne env (POST_document name purchased quantity) s of
                  (Inl e, s') \<Rightarrow> (Inl e, s')
                | (Inr r, s') \<Rightarrow> (Inr (reply r), s'))))"

text \<open>
  The body of the inner \<^verbatim>\<open>try\<close> of \<^verbatim>\<open>PATCH\<close> (lines 85 to 103). The identifier is built
  twice, once for each call. \<^verbatim>\<open>existingDocument\<close> is truthy where \<^verbatim>\<open>purchased\<close> is read,
  so the read does not throw.
\<close>

definition PATCH_try :: "'s remote \<Rightarrow> string \<Rightarrow> 's \<Rightarrow> (thrown + response) \<times> 's" where
  "PATCH_try env itemID s =
     (case ObjectId env itemID of
        Inl e \<Rightarrow> (Inl (Thrown e), s)
      | Inr i \<Rightarrow>
          (case findOne env i s of
             (Inl e, s') \<Rightarrow> (Inl e, s')
           | (Inr existingDocument, s') \<Rightarrow>
               if truthy existingDocument then
                 (case get_prop existingDocument ''purchased'' of
                    Inl e \<Rightarrow> (Inl (Thrown e), s')
                  | Inr p \<Rightarrow>
                      (let updatedPurchasedValue = JBool (\<not> truthy p) in
                       case ObjectId env itemID of
                         Inl e \<Rightarrow> (Inl (Thrown e), s')
                       | Inr i' \<Rightarrow>
                           (case updateOne env i' [(''purchased'', updatedPurchasedValue)] s' of
                              (Inl e, s'') \<Rightarrow> (Inl e, s'')
                            | (Inr r, s'') \<Rightarrow> (Inr (reply r), s''))))
               else (Inr (toError ''Document not found'' 404), s')))"

text \<open>The \<^verbatim>\<open>PATCH\<close> branch: the inner \<^verbatim>\<open>try\<close> and its \<^verbatim>\<open>catch\<close> (lines 83 to 108).\<close>

definition PATCH_branch :: "'s remote \<Rightarrow> string \<Rightarrow> 's \<Rightarrow> (thrown + response) \<times> 's" where
  "PATCH_branch env itemID s =
     (case PATCH_try env itemID s of
        (Inl err, s') \<Rightarrow> (Inr (toError ''Internal Server Error'' 500), s')
      | (Inr resp, s') \<Rightarrow> (Inr resp, s'))"

text \<open>
  The update object of \<^verbatim>\<open>PUT\<close> (lines 116 to 131): the object literal
  \<^verbatim>\<open>{name, purchased, quantity, _id: undefined}\<close>, then the three guarded assignments.
\<close>

definition PUT_updateObject :: "jsval \<Rightarrow> jsval \<Rightarrow> jsval \<Rightarrow> properties" where
  "PUT_updateObject name purchased quantity =
     (let updateObject0 =
            [(''name'', name), (''purchased'', purchased), (''quantity'', quantity),
             (''_id'', JUndefined)];
          updateObject1 =
            (if name \<noteq> JUndefined then AList.update ''name'' name updateObject0
             else updateObject0);
          updateObject2 =
            (if purchased \<noteq> JUndefined then AList.update ''purchased'' purchased updateObject1
             else updateObject1);
          updateObject3 =
            (if quantity \<noteq> JUndefined then AList.update ''quantity'' quantity updateObject2
             else updateObject2)
      in updateObject3)"

text \<open>The body of the inner \<^verbatim>\<open>try\<close> of \<^verbatim>\<open>PUT\<close> (lines 112 to 140).\<close>

definition PUT_try :: "'s remote \<Rightarrow> request \<Rightarrow> string \<Rightarrow> 's \<Rightarrow> (thrown + response) \<times> 's" where
  "PUT_try env req itemID s =
     (case req_json req of
        Inl e \<Rightarrow> (Inl e, s)
      | Inr b \<Rightarrow>
          (case destructure b of
             Inl e \<Rightarrow> (Inl (Thrown e), s)
           | Inr (name, purchased, quantity) \<Rightarrow>
               (case ObjectId env itemID of
                  Inl e \<Rightarrow> (Inl (Thrown e), s)
                | Inr i \<Rightarrow>
                    (case updateOne env i (PUT_updateObject name purchased quantity) s of
                       (Inl e, s') \<Rightarrow> (Inl e, s')
                     | (Inr r, s') \<Rightarrow> (Inr (reply r), s')))))"

text \<open>The \<^verbatim>\<open>PUT\<close> branch: the inner \<^verbatim>\<open>try\<close> and its \<^verbatim>\<open>catch\<close> (lines 110 to 145).\<close>

definition PUT_branch :: "'s remote \<Rightarrow> request \<Rightarrow> string \<Rightarrow> 's \<Rightarrow> (thrown + response) \<times> 's" where
  "PUT_branch env req itemID s =
     (case PUT_try env req itemID s of
        (Inl err, s') \<Rightarrow> (Inr (toError ''Internal Server Error'' 500), s')
      | (Inr resp, s') \<Rightarrow> (Inr resp, s'))"

text \<open>The \<^verbatim>\<open>DELETE\<close> branch (lines 148 to 154).\<close>

definition DELETE_branch :: "'s remote \<Rightarrow> string \<Rightarrow> 's \<Rightarrow> (thrown + response) \<times> 's" where
  "DELETE_branch env itemID s =
     (case ObjectId env itemID of
        Inl e \<Rightarrow> (Inl (Thrown e), s)
      | Inr i \<Rightarrow>
          (case deleteOne env i s of
             (Inl e, s') \<Rightarrow> (Inl e, s')
           | (Inr r, s') \<Rightarrow> (Inr (reply r), s')))"

text \<open>
  The body of the outer \<^verbatim>\<open>try\<close> (lines 54 to 157): the method is compared with
  \<^verbatim>\<open>===\<close>, branch by branch, and the last line answers 405.
\<close>

definition outer_try ::
  "'s remote \<Rightarrow> request \<Rightarrow> string \<Rightarrow> string \<Rightarrow> 's \<Rightarrow> (thrown + response) \<times> 's" where
  "outer_try env req method itemID s =
     (if method = ''GET'' then GET_branch env itemID s
      else if method = ''POST'' then POST_branch env req s
      else if method = ''PATCH'' then PATCH_branch env itemID s
      else if method = ''PUT'' then PUT_branch env req itemID s
      else if method = ''DELETE'' then DELETE_branch env itemID s
      else (Inr (toError ''Method not allowed.'' 405), s))"

text \<open>
  \<^verbatim>\<open>fetch\<close> (lines 25 to 162). The result \<open>Inl e\<close> is a thrown value that leaves the handler
  uncaught. The collection handle is taken on line 51, after the \<^verbatim>\<open>catch\<close> of the login
  and before the outer \<^verbatim>\<open>try\<close>.
\<close>

definition fetch :: "'s remote \<Rightarrow> request \<Rightarrow> 's \<Rightarrow> (thrown + response) \<times> 's" where
  "fetch env req s =
     (let method = req_method req;
          path = strip_slash (req_pathname req);
          itemID = or_empty (req_id req)
      in if path \<noteq> ''/api/shopping_list'' then (Inr (toError (unknown_url path) 404), s)
         else
           (case req_authorization req of
              None \<Rightarrow> (Inr (toError missing_header 401), s)
            | Some token \<Rightarrow>
                if token = [] then (Inr (toError missing_header 401), s)
                else
                  (case logIn env token s of
                     (Inl err, s1) \<Rightarrow> (Inr (toError ''Error with authentication.'' 500), s1)
                   | (Inr client, s1) \<Rightarrow>
                       (case collection env s1 of
                          (Inl err, s2) \<Rightarrow> (Inl err, s2)
                        | (Inr coll, s2) \<Rightarrow>
                            (case outer_try env req method itemID s2 of
                               (Inl err, s3) \<Rightarrow> (outer_catch err, s3)
                             | (Inr resp, s3) \<Rightarrow> (Inr resp, s3))))))"

subsection \<open>A reference remote\<close>

text \<open>
  Modelled from the spec: the remote authentication service (it accepts an API key and
  returns a session handle, or fails) and the remote document collection (a key-addressed
  document store offering find, insert, update and delete by identifier), which are
  services outside the repository. The store is the list of its documents and a counter
  for the identifiers it assigns. The theorems about the handler's own steps hold for
  every remote; this one gives the store-level statements a store, and the examples a
  concrete remote.
\<close>

record store =
  docs :: "properties list"
  counter :: nat

definition has_id :: "oid \<Rightarrow> properties \<Rightarrow> bool" where
  "has_id i d = (map_of d ''_id'' = Some (JOid i))"

definition mem_logIn :: "string list \<Rightarrow> string \<Rightarrow> store \<Rightarrow> (thrown + unit) \<times> store" where
  "mem_logIn keys token s =
     (if token \<in> set keys then (Inr (), s) else (Inl (Thrown (Exn (Some ''invalid API key''))), s))"

text \<open>
  The identifier constructor accepts a string of 24 hexadecimal digits, read without
  regard to letter case, and throws on any other string, the empty one included (the
  raw 12-byte form that the BSON library also accepts is left out).
\<close>

definition lower_hex :: "char \<Rightarrow> char option" where
  "lower_hex = map_of (zip ''0123456789abcdefABCDEF'' ''0123456789abcdefabcdef'')"

definition bad_id :: exn where
  "bad_id = Exn (Some ''Argument passed in must be a string of 24 hex characters'')"

definition mem_ObjectId :: "string \<Rightarrow> exn + oid" where
  "mem_ObjectId str =
     (if length str = 24 then
        (case those (map lower_hex str) of None \<Rightarrow> Inl bad_id | Some h \<Rightarrow> Inr (OID h))
      else Inl bad_id)"

definition mem_findOne :: "oid \<Rightarrow> store \<Rightarrow> (thrown + jsval) \<times> store" where
  "mem_findOne i s =
     (Inr (case List.find (has_id i) (docs s) of None \<Rightarrow> JNull | Some d \<Rightarrow> JObj d), s)"

definition mem_find :: "store \<Rightarrow> (thrown + jsval) \<times> store" where
  "mem_find s = (Inr (JArr (map JObj (docs s))), s)"

text \<open>The last \<open>k\<close> hexadecimal digits of a number: the identifiers the store assigns.\<close>

fun hex_digits :: "nat \<Rightarrow> nat \<Rightarrow> string" where
  "hex_digits 0 n = []"
| "hex_digits (Suc k) n = hex_digits k (n div 16) @ [''0123456789abcdef'' ! (n mod 16)]"

definition hex24 :: "nat \<Rightarrow> string" where
  "hex24 n = hex_digits 24 n"

definition mem_insertOne :: "properties \<Rightarrow> store \<Rightarrow> (thrown + jsval) \<times> store" where
  "mem_insertOne d s =
     (let i = OID (hex24 (counter s))
      in (Inr (JObj [(''insertedId'', JOid i)]),
          \<lparr>docs = docs s @ [(''_id'', JOid i) # d], counter = Suc (counter s)\<rparr>))"

text \<open>
  \<^verbatim>\<open>$set\<close> assigns each listed property, in order, on the first document with the
  identifier. The store assigns the value it is handed; how the client library encodes
  a property whose value is \<^verbatim>\<open>undefined\<close> is outside the sources and is not modelled.
\<close>

definition assign :: "properties \<Rightarrow> properties \<Rightarrow> properties" where
  "assign u d = fold (\<lambda>kv. AList.update (fst kv) (snd kv)) u d"

fun set_first :: "oid \<Rightarrow> properties \<Rightarrow> properties list \<Rightarrow> properties list" where
  "set_first i u [] = []"
| "set_first i u (d # ds) = (if has_id i d then assign u d # ds else d # set_first i u ds)"

definition count_result :: "string \<Rightarrow> bool \<Rightarrow> (string \<times> jsval)" where
  "count_result k b = (k, JNum (if b then 1 else 0))"

definition mem_updateOne :: "oid \<Rightarrow> properties \<Rightarrow> store \<Rightarrow> (thrown + jsval) \<times> store" where
  "mem_updateOne i u s =
     (Inr (JObj [count_result ''matchedCount'' (list_ex (has_id i) (docs s)),
                 count_result ''modifiedCount'' (set_first i u (docs s) \<noteq> docs s)]),
      s\<lparr>docs := set_first i u (docs s)\<rparr>)"

fun delete_first :: "oid \<Rightarrow> properties list \<Rightarrow> properties list" where
  "delete_first i [] = []"
| "delete_first i (d # ds) = (if has_id i d then ds else d # delete_first i ds)"

definition mem_deleteOne :: "oid \<Rightarrow> store \<Rightarrow> (thrown + jsval) \<times> store" where
  "mem_deleteOne i s =
     (Inr (JObj [count_result ''deletedCount'' (list_ex (has_id i) (docs s))]),
      s\<lparr>docs := delete_first i (docs s)\<rparr>)"

definition mem_remote :: "string list \<Rightarrow> store remote" where
  "mem_remote keys =
     \<lparr>logIn = mem_logIn keys,
      collection = (\<lambda>s. (Inr (), s)),
      ObjectId = mem_ObjectId,
      findOne = mem_findOne,
      find_docs = mem_find,
      insertOne = mem_insertOne,
      updateOne = mem_updateOne,
      deleteOne = mem_deleteOne\<rparr>"

text \<open>A store with one item, and requests on it.\<close>

definition milk_id :: string where
  "milk_id = ''64b7f0c2a1d3e4f5a6b7c8d9''"

definition other_id :: string where
  "other_id = ''0123456789abcdefABCDEF00''"

definition milk :: properties where
  "milk = [(''_id'', JOid (OID milk_id)), (''name'', JStr ''Milk''),
           (''purchased'', JBool False), (''quantity'', JStr ''1L'')]"

definition shop :: store where
  "shop = \<lparr>docs = [milk], counter = 1\<rparr>"

definition request_of :: "string \<Rightarrow> string option \<Rightarrow> thrown + jsval \<Rightarrow> request" where
  "request_of m i b =
     \<lparr>req_method = m, req_pathname = ''/api/shopping_list/'', req_id = i,
      req_authorization = Some ''secret'', req_json = b\<rparr>"

text \<open>The same remote, whose collection handle cannot be taken.\<close>

definition no_handle_remote :: "store remote" where
  "no_handle_remote =
     (mem_remote [''secret''])\<lparr>collection := \<lambda>s. (Inl (Thrown (Exn (Some ''no client''))), s)\<rparr>"

text \<open>The same remote, whose lookups reject with \<^verbatim>\<open>null\<close>.\<close>

definition null_remote :: "store remote" where
  "null_remote =
     (mem_remote [''secret''])
       \<lparr>findOne := \<lambda>i s. (Inl Nullish, s), find_docs := \<lambda>s. (Inl Nullish, s)\<rparr>"

text \<open>A store whose item was created with a \<^verbatim>\<open>purchased\<close> that is a string.\<close>

definition yes_milk :: properties where
  "yes_milk = [(''_id'', JOid (OID milk_id)), (''name'', JStr ''Milk''),
               (''purchased'', JStr ''yes''), (''quantity'', JStr ''1L'')]"

definition yes_shop :: store where
  "yes_shop = \<lparr>docs = [yes_milk], counter = 1\<rparr>"

text \<open>
  A remote whose \<^verbatim>\<open>updateOne\<close> writes nothing and answers with the update document it
  was handed: the reply then shows the argument of the call.
\<close>

definition echo_remote :: "store remote" where
  "echo_remote = (mem_remote [''secret''])\<lparr>updateOne := \<lambda>i u s. (Inr (JObj u), s)\<rparr>"

text \<open>A request without a body: \<^verbatim>\<open>req.json()\<close> throws a SyntaxError.\<close>

definition no_body :: "thrown + jsval" where
  "no_body = Inl (Thrown (Exn (Some ''Unexpected end of JSON input'')))"

section \<open>Properties\<close>

subsection \<open>Shared facts\<close>

lemma status_toError: "status (toError msg code) = code"
  by (simp add: toError_def)

lemma status_reply: "status (reply payload) = 200"
  by (simp add: reply_def)

lemma strip_slash_request_of: "strip_slash (req_pathname (request_of m i b)) = ''/api/shopping_list''"
  by (simp add: request_of_def strip_slash_def)

text \<open>
  A request on the path, with a key the login accepts and a collection handle, is
  answered by the body of the outer \<^verbatim>\<open>try\<close> under its \<^verbatim>\<open>catch\<close>.
\<close>

lemma fetch_outer:
  assumes "strip_slash (req_pathname req) = ''/api/shopping_list''"
    and "req_authorization req = Some token" and "token \<noteq> []"
    and "logIn env token s = (Inr u, s1)"
    and "collection env s1 = (Inr c, s2)"
  shows "fetch env req s =
           (case outer_try env req (req_method req) (or_empty (req_id req)) s2 of
              (Inl err, s3) \<Rightarrow> (outer_catch err, s3)
            | (Inr resp, s3) \<Rightarrow> (Inr resp, s3))"
  using assms by (simp add: fetch_def)

lemma mem_session:
  "req_authorization (request_of m i b) = Some ''secret''"
  "logIn (mem_remote [''secret'']) ''secret'' s = (Inr (), s)"
  "collection (mem_remote [''secret'']) s = (Inr (), s)"
  by (simp_all add: request_of_def mem_remote_def mem_logIn_def)

lemma mem_ObjectId_known:
  "ObjectId (mem_remote keys) milk_id = Inr (OID milk_id)"
  "ObjectId (mem_remote keys) other_id = Inr (OID ''0123456789abcdefabcdef00'')"
  "ObjectId (mem_remote keys) [] = Inl bad_id"
  "ObjectId (mem_remote keys) ''milk'' = Inl bad_id"
  by (simp_all add: mem_remote_def mem_ObjectId_def milk_id_def other_id_def lower_hex_def)

lemma mem_findOne_shop:
  "findOne (mem_remote keys) (OID milk_id) shop = (Inr (JObj milk), shop)"
  "findOne (mem_remote keys) (OID ''0123456789abcdefabcdef00'') shop = (Inr JNull, shop)"
  by (simp_all add: mem_remote_def mem_findOne_def shop_def milk_def has_id_def milk_id_def)

lemma request_of_simps:
  "req_method (request_of m i b) = m"
  "req_id (request_of m i b) = i"
  "req_json (request_of m i b) = b"
  by (simp_all add: request_of_def)

lemma hex24_first: "hex24 0 = ''000000000000000000000000''"
  by code_simp

lemma secret_nonempty: "''secret'' \<noteq> []"
  by simp

subsection \<open>The path check\<close>

text \<open>
  C8. A request whose path, after one trailing slash is removed, is not
  \<^verbatim>\<open>/api/shopping_list\<close> is answered 404, whatever its method and its authorization
  header, and the remote state is untouched. The error message is the text of line 35:
  \<^verbatim>\<open>Unknown "\<close>, the stripped path, \<^verbatim>\<open>" URL; try "/api/shopping_list" instead.\<close>, so it
  names the expected path.
\<close>

theorem unknown_path_404:
  assumes "strip_slash (req_pathname req) \<noteq> ''/api/shopping_list''"
    and "msg = ''Unknown '' @ [CHR 0x22] @ strip_slash (req_pathname req) @ [CHR 0x22]
                 @ '' URL; try '' @ [CHR 0x22] @ ''/api/shopping_list'' @ [CHR 0x22]
                 @ '' instead.''"
  shows "fetch env req s = (Inr (toError msg 404), s)
         \<and> status (toError msg 404) = 404
         \<and> body (toError msg 404) = JObj [(''success'', JBool False), (''error'', JStr msg)]
         \<and> (\<exists>before after. msg = before @ ''/api/shopping_list'' @ after)"
proof (intro conjI)
  show "fetch env req s = (Inr (toError msg 404), s)"
    using assms by (simp add: fetch_def unknown_url_def)
  show "\<exists>before after. msg = before @ ''/api/shopping_list'' @ after"
  proof (intro exI)
    show "msg = (''Unknown '' @ [CHR 0x22] @ strip_slash (req_pathname req) @ [CHR 0x22]
                   @ '' URL; try '' @ [CHR 0x22]) @ ''/api/shopping_list''
                 @ ([CHR 0x22] @ '' instead.'')"
      using assms(2) by simp
  qed
qed (simp_all add: toError_def)

theorem unknown_path_404_witness:
  "fetch (mem_remote [''secret''])
     \<lparr>req_method = ''GET'', req_pathname = ''/api/shopping_lists/'', req_id = None,
      req_authorization = None, req_json = no_body\<rparr> shop
     = (Inr \<lparr>status = 404,
             body = JObj [(''success'', JBool False),
                          (''error'', JStr (''Unknown '' @ [CHR 0x22] @ ''/api/shopping_lists''
                             @ [CHR 0x22] @ '' URL; try '' @ [CHR 0x22] @ ''/api/shopping_list''
                             @ [CHR 0x22] @ '' instead.''))]\<rparr>,
        shop)"
proof -
  let ?req = "\<lparr>req_method = ''GET'', req_pathname = ''/api/shopping_lists/'', req_id = None,
      req_authorization = None, req_json = no_body\<rparr>"
  have p: "strip_slash (req_pathname ?req) \<noteq> ''/api/shopping_list''"
    by (simp add: strip_slash_def)
  from unknown_path_404 [OF p refl, of "mem_remote [''secret'']" shop]
  show ?thesis
    by (simp add: strip_slash_def toError_def)
qed

subsection \<open>Authentication\<close>

text \<open>
  C7. On the valid path, a request whose \<^verbatim>\<open>authorization\<close> header is missing or empty
  is answered 401 and the remote state is untouched (no remote call was made); a request
  whose header is present and whose login throws is answered 500 with the one message
  \<^verbatim>\<open>Error with authentication.\<close>, whatever was thrown.
\<close>

theorem authentication_failures:
  assumes "strip_slash (req_pathname req) = ''/api/shopping_list''"
  shows "(req_authorization req = None \<or> req_authorization req = Some [] \<longrightarrow>
            fetch env req s = (Inr (toError missing_header 401), s))
         \<and> (\<forall>token e s1.
               req_authorization req = Some token \<and> token \<noteq> []
               \<and> logIn env token s = (Inl e, s1) \<longrightarrow>
               fetch env req s = (Inr (toError ''Error with authentication.'' 500), s1))
         \<and> status (toError missing_header 401) = 401
         \<and> status (toError ''Error with authentication.'' 500) = 500"
  using assms by (auto simp add: fetch_def toError_def)

theorem authentication_failures_witness:
  "fetch (mem_remote [''secret''])
     ((request_of ''GET'' None no_body)\<lparr>req_authorization := None\<rparr>) shop
     = (Inr (toError missing_header 401), shop)
   \<and> fetch (mem_remote [''secret''])
     ((request_of ''GET'' None no_body)\<lparr>req_authorization := Some ''wrong''\<rparr>) shop
     = (Inr (toError ''Error with authentication.'' 500), shop)
   \<and> fetch ((mem_remote [''secret''])\<lparr>logIn := \<lambda>token s. (Inl Nullish, s)\<rparr>)
     (request_of ''GET'' None no_body) shop
     = (Inr (toError ''Error with authentication.'' 500), shop)"
proof -
  let ?none = "(request_of ''GET'' None no_body)\<lparr>req_authorization := None\<rparr>"
  let ?wrong = "(request_of ''GET'' None no_body)\<lparr>req_authorization := Some ''wrong''\<rparr>"
  let ?down = "(mem_remote [''secret''])\<lparr>logIn := \<lambda>token s. (Inl Nullish, s)\<rparr>"
  have p: "strip_slash (req_pathname ?none) = ''/api/shopping_list''"
    "strip_slash (req_pathname ?wrong) = ''/api/shopping_list''"
    "strip_slash (req_pathname (request_of ''GET'' None no_body)) = ''/api/shopping_list''"
    by (simp_all add: request_of_def strip_slash_def)
  have a: "req_authorization ?none = None" by simp
  have b: "req_authorization ?wrong = Some ''wrong'' \<and> ''wrong'' \<noteq> []
           \<and> logIn (mem_remote [''secret'']) ''wrong'' shop
               = (Inl (Thrown (Exn (Some ''invalid API key''))), shop)"
    by (simp add: mem_remote_def mem_logIn_def)
  have c: "req_authorization (request_of ''GET'' None no_body) = Some ''secret''
           \<and> ''secret'' \<noteq> [] \<and> logIn ?down ''secret'' shop = (Inl Nullish, shop)"
    by (simp add: request_of_def)
  from authentication_failures [OF p(1), where env = "mem_remote [''secret'']" and s = shop] a
  have 1: "fetch (mem_remote [''secret'']) ?none shop = (Inr (toError missing_header 401), shop)"
    by blast
  from authentication_failures [OF p(2), where env = "mem_remote [''secret'']" and s = shop] b
  have 2: "fetch (mem_remote [''secret'']) ?wrong shop
             = (Inr (toError ''Error with authentication.'' 500), shop)"
    by blast
  from authentication_failures [OF p(3), where env = ?down and s = shop] c
  have 3: "fetch ?down (request_of ''GET'' None no_body) shop
             = (Inr (toError ''Error with authentication.'' 500), shop)"
    by blast
  from 1 2 3 show ?thesis by simp
qed

subsection \<open>Method dispatch\<close>

text \<open>
  C9. An authenticated request on the valid path whose method is none of \<^verbatim>\<open>GET\<close>,
  \<^verbatim>\<open>POST\<close>, \<^verbatim>\<open>PATCH\<close>, \<^verbatim>\<open>PUT\<close>, \<^verbatim>\<open>DELETE\<close> (compared as strings, so by case) is
  answered 405 with the message \<^verbatim>\<open>Method not allowed.\<close>; the remote state is the one
  the login and the collection handle left, so no collection operation ran.
\<close>

theorem unknown_method_405:
  assumes "strip_slash (req_pathname req) = ''/api/shopping_list''"
    and "req_authorization req = Some token" and "token \<noteq> []"
    and "logIn env token s = (Inr u, s1)"
    and "collection env s1 = (Inr c, s2)"
    and "req_method req \<notin> {''GET'', ''POST'', ''PATCH'', ''PUT'', ''DELETE''}"
  shows "fetch env req s = (Inr (toError ''Method not allowed.'' 405), s2)
         \<and> status (toError ''Method not allowed.'' 405) = 405"
  using assms(6) by (simp add: fetch_outer [OF assms(1-5)] outer_try_def toError_def)

theorem unknown_method_405_witness:
  "fetch (mem_remote [''secret'']) (request_of ''get'' (Some milk_id) no_body) shop
     = (Inr (toError ''Method not allowed.'' 405), shop)"
proof -
  have m: "req_method (request_of ''get'' (Some milk_id) no_body)
             \<notin> {''GET'', ''POST'', ''PATCH'', ''PUT'', ''DELETE''}"
    by (simp add: request_of_def)
  have k: "''secret'' \<noteq> []" by simp
  from unknown_method_405 [OF strip_slash_request_of mem_session(1) k mem_session(2,3) m]
  show ?thesis by simp
qed

subsection \<open>Toggling: the missing document\<close>

text \<open>
  C4. An authenticated \<^verbatim>\<open>PATCH\<close> on the valid path whose identifier the lookup finds no
  document for (\<^verbatim>\<open>findOne\<close> returns \<^verbatim>\<open>null\<close>) is answered 404 with the message
  \<^verbatim>\<open>Document not found\<close>; the remote state is the one the lookup left, so no update
  was written.
\<close>

theorem patch_missing_document_404:
  assumes "strip_slash (req_pathname req) = ''/api/shopping_list''"
    and "req_authorization req = Some token" and "token \<noteq> []"
    and "logIn env token s = (Inr u, s1)"
    and "collection env s1 = (Inr c, s2)"
    and "req_method req = ''PATCH''"
    and "ObjectId env (or_empty (req_id req)) = Inr i"
    and "findOne env i s2 = (Inr JNull, s3)"
  shows "fetch env req s = (Inr (toError ''Document not found'' 404), s3)
         \<and> status (toError ''Document not found'' 404) = 404"
  using assms(6-8)
  by (simp add: fetch_outer [OF assms(1-5)] outer_try_def PATCH_branch_def PATCH_try_def
      toError_def)

theorem patch_missing_document_404_witness:
  "fetch (mem_remote [''secret'']) (request_of ''PATCH'' (Some other_id) no_body) shop
     = (Inr (toError ''Document not found'' 404), shop)"
proof -
  have i: "ObjectId (mem_remote [''secret''])
             (or_empty (req_id (request_of ''PATCH'' (Some other_id) no_body)))
           = Inr (OID ''0123456789abcdefabcdef00'')"
    using mem_ObjectId_known(2) [of "[''secret'']"]
    by (simp add: request_of_simps or_empty_def)
  from patch_missing_document_404 [OF strip_slash_request_of mem_session(1) secret_nonempty
      mem_session(2,3) request_of_simps(1) i mem_findOne_shop(2)]
  show ?thesis by simp
qed

subsection \<open>Identifiers the constructor rejects\<close>

text \<open>
  C10. An authenticated \<^verbatim>\<open>PATCH\<close> or \<^verbatim>\<open>DELETE\<close> on the valid path whose \<^verbatim>\<open>id\<close> the
  identifier constructor rejects is answered 500: \<^verbatim>\<open>PATCH\<close> by its inner \<^verbatim>\<open>catch\<close>,
  with the message \<^verbatim>\<open>Internal Server Error\<close>, \<^verbatim>\<open>DELETE\<close> by the outer \<^verbatim>\<open>catch\<close>, with the
  message of the constructor's exception. An absent or empty \<^verbatim>\<open>id\<close> reaches the
  constructor as the empty string. No collection operation runs.
\<close>

theorem rejected_id_500:
  assumes "strip_slash (req_pathname req) = ''/api/shopping_list''"
    and "req_authorization req = Some token" and "token \<noteq> []"
    and "logIn env token s = (Inr u, s1)"
    and "collection env s1 = (Inr c, s2)"
    and "ObjectId env (or_empty (req_id req)) = Inl e"
  shows "(req_method req = ''PATCH'' \<longrightarrow>
            fetch env req s = (Inr (toError ''Internal Server Error'' 500), s2))
         \<and> (req_method req = ''DELETE'' \<longrightarrow>
            fetch env req s = (Inr (toError (query_msg e) 500), s2))
         \<and> (req_id req = None \<or> req_id req = Some [] \<longrightarrow> or_empty (req_id req) = [])
         \<and> (\<forall>msg. status (toError msg 500) = 500
                \<and> status (toError msg 500) \<noteq> 404 \<and> status (toError msg 500) \<noteq> 400)"
  using assms(6)
  by (auto simp add: fetch_outer [OF assms(1-5)] outer_try_def PATCH_branch_def PATCH_try_def
      DELETE_branch_def outer_catch_def toError_def or_empty_def)

theorem rejected_id_500_witness:
  "fetch (mem_remote [''secret'']) (request_of ''PATCH'' None no_body) shop
     = (Inr (toError ''Internal Server Error'' 500), shop)
   \<and> fetch (mem_remote [''secret'']) (request_of ''DELETE'' (Some []) no_body) shop
     = (Inr (toError ''Argument passed in must be a string of 24 hex characters'' 500), shop)
   \<and> fetch (mem_remote [''secret'']) (request_of ''DELETE'' (Some ''milk'') no_body) shop
     = (Inr (toError ''Argument passed in must be a string of 24 hex characters'' 500), shop)"
proof -
  have i: "ObjectId (mem_remote [''secret''])
             (or_empty (req_id (request_of ''PATCH'' None no_body))) = Inl bad_id"
    "ObjectId (mem_remote [''secret''])
             (or_empty (req_id (request_of ''DELETE'' (Some []) no_body))) = Inl bad_id"
    "ObjectId (mem_remote [''secret''])
             (or_empty (req_id (request_of ''DELETE'' (Some ''milk'') no_body))) = Inl bad_id"
    using mem_ObjectId_known(3,4) [of "[''secret'']"]
    by (simp_all add: request_of_simps or_empty_def)
  have q: "query_msg bad_id = ''Argument passed in must be a string of 24 hex characters''"
    by (simp add: query_msg_def bad_id_def)
  from rejected_id_500 [OF strip_slash_request_of mem_session(1) secret_nonempty
      mem_session(2,3) i(1)]
  have 1: "fetch (mem_remote [''secret'']) (request_of ''PATCH'' None no_body) shop
             = (Inr (toError ''Internal Server Error'' 500), shop)"
    by (simp add: request_of_simps)
  from rejected_id_500 [OF strip_slash_request_of mem_session(1) secret_nonempty
      mem_session(2,3) i(2)]
  have 2: "fetch (mem_remote [''secret'']) (request_of ''DELETE'' (Some []) no_body) shop
             = (Inr (toError (query_msg bad_id) 500), shop)"
    by (simp add: request_of_simps)
  from rejected_id_500 [OF strip_slash_request_of mem_session(1) secret_nonempty
      mem_session(2,3) i(3)]
  have 3: "fetch (mem_remote [''secret'']) (request_of ''DELETE'' (Some ''milk'') no_body) shop
             = (Inr (toError (query_msg bad_id) 500), shop)"
    by (simp add: request_of_simps)
  from 1 2 3 q show ?thesis by simp
qed

subsection \<open>Reading one document\<close>

lemma GET_by_id:
  assumes "strip_slash (req_pathname req) = ''/api/shopping_list''"
    and "req_authorization req = Some token" and "token \<noteq> []"
    and "logIn env token s = (Inr u, s1)"
    and "collection env s1 = (Inr c, s2)"
    and "req_method req = ''GET''"
    and "req_id req = Some str" and "str \<noteq> []"
  shows "ObjectId env str = Inr i \<Longrightarrow> findOne env i s2 = (Inr d, s3)
           \<Longrightarrow> fetch env req s = (Inr (reply d), s3)"
    and "ObjectId env str = Inl e \<Longrightarrow> fetch env req s = (Inr (toError (query_msg e) 500), s2)"
  using assms(6-8)
  by (simp_all add: fetch_outer [OF assms(1-5)] outer_try_def GET_branch_def or_empty_def
      outer_catch_def)

lemma mem_GET_by_id:
  assumes "strip_slash (req_pathname req) = ''/api/shopping_list''"
    and "req_authorization req = Some token" and "token \<noteq> []" and "token \<in> set keys"
    and "req_method req = ''GET''"
    and "req_id req = Some str" and "str \<noteq> []"
    and "mem_ObjectId str = Inr i"
  shows "fetch (mem_remote keys) req st =
           (Inr (reply (case List.find (has_id i) (docs st) of
                          None \<Rightarrow> JNull | Some d \<Rightarrow> JObj d)), st)"
proof -
  have l: "logIn (mem_remote keys) token st = (Inr (), st)"
    using assms(4) by (simp add: mem_remote_def mem_logIn_def)
  have c: "collection (mem_remote keys) st = (Inr (), st)"
    by (simp add: mem_remote_def)
  have i: "ObjectId (mem_remote keys) str = Inr i"
    using assms(8) by (simp add: mem_remote_def)
  have f: "findOne (mem_remote keys) i st =
             (Inr (case List.find (has_id i) (docs st) of None \<Rightarrow> JNull | Some d \<Rightarrow> JObj d), st)"
    by (simp add: mem_remote_def mem_findOne_def)
  show ?thesis
    by (rule GET_by_id(1) [OF assms(1-3) l c assms(5-7) i f])
qed

text \<open>
  C6, as the claim states it, fails: a present \<^verbatim>\<open>id\<close> need not be one the identifier
  constructor accepts. For \<^verbatim>\<open>GET /api/shopping_list?id=milk\<close> no document has that
  identifier, and the answer is not a success with payload \<^verbatim>\<open>null\<close> but the error 500 that
  the outer \<^verbatim>\<open>catch\<close> makes of the constructor's exception.
\<close>

theorem get_rejected_id_is_error:
  "fetch (mem_remote [''secret'']) (request_of ''GET'' (Some ''milk'') no_body) shop
     = (Inr (toError ''Argument passed in must be a string of 24 hex characters'' 500), shop)
   \<and> status (toError ''Argument passed in must be a string of 24 hex characters'' 500) = 500
   \<and> toError ''Argument passed in must be a string of 24 hex characters'' 500 \<noteq> reply JNull
   \<and> ObjectId (mem_remote [''secret'']) ''milk'' = Inl bad_id
   \<and> docs shop = [milk]"
proof -
  have n: "''milk'' \<noteq> []" by simp
  have q: "query_msg bad_id = ''Argument passed in must be a string of 24 hex characters''"
    by (simp add: query_msg_def bad_id_def)
  from GET_by_id(2) [OF strip_slash_request_of mem_session(1) secret_nonempty mem_session(2,3)
      request_of_simps(1,2) n mem_ObjectId_known(4)]
  have "fetch (mem_remote [''secret'']) (request_of ''GET'' (Some ''milk'') no_body) shop
          = (Inr (toError (query_msg bad_id) 500), shop)" .
  then show ?thesis
    using mem_ObjectId_known(4) [of "[''secret'']"]
    by (simp add: q toError_def reply_def shop_def)
qed

text \<open>
  C6, amended. An authenticated \<^verbatim>\<open>GET\<close> on the valid path with a non-empty \<^verbatim>\<open>id\<close>:
  when the identifier constructor accepts the \<^verbatim>\<open>id\<close>, the answer is a success (status
  200, \<^verbatim>\<open>success: true\<close>) whose payload is what the lookup returned, which on the
  reference store is the document that has the identifier, or \<^verbatim>\<open>null\<close> when none has,
  and that is no error; when the constructor rejects the \<^verbatim>\<open>id\<close>, the answer is the error
  500 with the message of the constructor's exception, and no lookup runs.
\<close>

theorem get_by_id_lookup:
  assumes "strip_slash (req_pathname req) = ''/api/shopping_list''"
    and "req_authorization req = Some token" and "token \<noteq> []"
    and "logIn env token s = (Inr u, s1)"
    and "collection env s1 = (Inr c, s2)"
    and "req_method req = ''GET''"
    and "req_id req = Some str" and "str \<noteq> []"
  shows "(\<forall>i d s3. ObjectId env str = Inr i \<and> findOne env i s2 = (Inr d, s3) \<longrightarrow>
            fetch env req s = (Inr (reply d), s3))
    \<and> (\<forall>e. ObjectId env str = Inl e \<longrightarrow>
            fetch env req s = (Inr (toError (query_msg e) 500), s2))
    \<and> (\<forall>keys st i. token \<in> set keys \<and> mem_ObjectId str = Inr i \<longrightarrow>
            fetch (mem_remote keys) req st =
              (Inr (reply (case List.find (has_id i) (docs st) of
                             None \<Rightarrow> JNull | Some d \<Rightarrow> JObj d)), st))
    \<and> (\<forall>d. status (reply d) = 200
            \<and> body (reply d) = JObj [(''success'', JBool True), (''payload'', d)])
    \<and> (\<forall>m. status (toError m 500) = 500)"
proof (intro conjI allI impI)
  fix i d s3 assume h: "ObjectId env str = Inr i \<and> findOne env i s2 = (Inr d, s3)"
  show "fetch env req s = (Inr (reply d), s3)"
    by (rule GET_by_id(1) [OF assms conjunct1 [OF h] conjunct2 [OF h]])
next
  fix e assume "ObjectId env str = Inl e"
  then show "fetch env req s = (Inr (toError (query_msg e) 500), s2)"
    by (rule GET_by_id(2) [OF assms])
next
  fix keys st i assume h: "token \<in> set keys \<and> mem_ObjectId str = Inr i"
  show "fetch (mem_remote keys) req st =
          (Inr (reply (case List.find (has_id i) (docs st) of
                         None \<Rightarrow> JNull | Some d \<Rightarrow> JObj d)), st)"
    by (rule mem_GET_by_id [OF assms(1-3) conjunct1 [OF h] assms(6-8) conjunct2 [OF h]])
qed (simp_all add: reply_def toError_def)

theorem get_by_id_lookup_witness:
  "fetch (mem_remote [''secret'']) (request_of ''GET'' (Some milk_id) no_body) shop
     = (Inr (reply (JObj milk)), shop)
   \<and> fetch (mem_remote [''secret'']) (request_of ''GET'' (Some other_id) no_body) shop
     = (Inr (reply JNull), shop)
   \<and> fetch (mem_remote [''secret'']) (request_of ''GET'' (Some ''milk'') no_body) shop
     = (Inr (toError ''Argument passed in must be a string of 24 hex characters'' 500), shop)"
proof -
  have n: "milk_id \<noteq> []" "other_id \<noteq> []" "''milk'' \<noteq> []"
    by (simp_all add: milk_id_def other_id_def)
  have h1: "ObjectId (mem_remote [''secret'']) milk_id = Inr (OID milk_id)
      \<and> findOne (mem_remote [''secret'']) (OID milk_id) shop = (Inr (JObj milk), shop)"
    using mem_ObjectId_known(1) mem_findOne_shop(1) by simp
  have h2: "ObjectId (mem_remote [''secret'']) other_id = Inr (OID ''0123456789abcdefabcdef00'')
      \<and> findOne (mem_remote [''secret'']) (OID ''0123456789abcdefabcdef00'') shop
          = (Inr JNull, shop)"
    using mem_ObjectId_known(2) mem_findOne_shop(2) by simp
  have q: "query_msg bad_id = ''Argument passed in must be a string of 24 hex characters''"
    by (simp add: query_msg_def bad_id_def)
  note 1 = get_by_id_lookup [OF strip_slash_request_of
      mem_session(1) [of "''GET''" "Some milk_id" no_body] secret_nonempty
      mem_session(2,3) [of shop] request_of_simps(1,2) n(1), THEN conjunct1, THEN spec,
      THEN spec, THEN spec, THEN mp, OF h1]
  note 2 = get_by_id_lookup [OF strip_slash_request_of
      mem_session(1) [of "''GET''" "Some other_id" no_body] secret_nonempty
      mem_session(2,3) [of shop] request_of_simps(1,2) n(2), THEN conjunct1, THEN spec,
      THEN spec, THEN spec, THEN mp, OF h2]
  note 3 = get_by_id_lookup [OF strip_slash_request_of
      mem_session(1) [of "''GET''" "Some ''milk''" no_body] secret_nonempty
      mem_session(2,3) [of shop] request_of_simps(1,2) n(3), THEN conjunct2, THEN conjunct1,
      THEN spec, THEN mp, OF mem_ObjectId_known(4)]
  show ?thesis
    using 1 2 3 by (simp only: q simp_thms)
qed

subsection \<open>The outer catch\<close>

lemma fetch_outcome:
  assumes "strip_slash (req_pathname req) = ''/api/shopping_list''"
    and "req_authorization req = Some token" and "token \<noteq> []"
    and "logIn env token s = (Inr u, s1)"
    and "collection env s1 = (Inr c, s2)"
  shows "(\<exists>resp s3. fetch env req s = (Inr resp, s3))
         \<or> (\<exists>s3. fetch env req s = (Inl (Thrown cannot_read), s3))"
proof (cases "outer_try env req (req_method req) (or_empty (req_id req)) s2")
  case (Pair r s3)
  show ?thesis
  proof (cases r)
    case (Inr resp)
    with Pair show ?thesis
      by (simp add: fetch_outer [OF assms])
  next
    case (Inl t)
    with Pair show ?thesis
      by (cases t) (simp_all add: fetch_outer [OF assms] outer_catch_def)
  qed
qed

lemma fetch_unhandled:
  assumes "strip_slash (req_pathname req) = ''/api/shopping_list''"
    and "req_authorization req = Some token" and "token \<noteq> []"
    and "logIn env token s = (Inr u, s1)"
    and "collection env s1 = (Inl t, s2)"
  shows "fetch env req s = (Inl t, s2)"
  using assms by (simp add: fetch_def)

lemma GET_caught:
  assumes "strip_slash (req_pathname req) = ''/api/shopping_list''"
    and "req_authorization req = Some token" and "token \<noteq> []"
    and "logIn env token s = (Inr u, s1)"
    and "collection env s1 = (Inr c, s2)"
    and "req_method req = ''GET''"
  shows "or_empty (req_id req) \<noteq> [] \<Longrightarrow> ObjectId env (or_empty (req_id req)) = Inl e
           \<Longrightarrow> fetch env req s = (Inr (toError (query_msg e) 500), s2)"
    and "or_empty (req_id req) \<noteq> [] \<Longrightarrow> ObjectId env (or_empty (req_id req)) = Inr i
           \<Longrightarrow> findOne env i s2 = (Inl t, s3)
           \<Longrightarrow> fetch env req s = (outer_catch t, s3)"
    and "or_empty (req_id req) = [] \<Longrightarrow> find_docs env s2 = (Inl t, s3)
           \<Longrightarrow> fetch env req s = (outer_catch t, s3)"
  using assms(6)
  by (simp_all add: fetch_outer [OF assms(1-5)] outer_try_def GET_branch_def outer_catch_def)

lemma POST_caught:
  assumes "strip_slash (req_pathname req) = ''/api/shopping_list''"
    and "req_authorization req = Some token" and "token \<noteq> []"
    and "logIn env token s = (Inr u, s1)"
    and "collection env s1 = (Inr c, s2)"
    and "req_method req = ''POST''"
  shows "req_json req = Inl t \<Longrightarrow> fetch env req s = (outer_catch t, s2)"
    and "req_json req = Inr b \<Longrightarrow> destructure b = Inl e
           \<Longrightarrow> fetch env req s = (Inr (toError (query_msg e) 500), s2)"
    and "req_json req = Inr b \<Longrightarrow> destructure b = Inr (n, p, q)
           \<Longrightarrow> insertOne env (POST_document n p q) s2 = (Inl t, s3)
           \<Longrightarrow> fetch env req s = (outer_catch t, s3)"
  using assms(6)
  by (simp_all add: fetch_outer [OF assms(1-5)] outer_try_def POST_branch_def outer_catch_def)

lemma DELETE_caught:
  assumes "strip_slash (req_pathname req) = ''/api/shopping_list''"
    and "req_authorization req = Some token" and "token \<noteq> []"
    and "logIn env token s = (Inr u, s1)"
    and "collection env s1 = (Inr c, s2)"
    and "req_method req = ''DELETE''"
  shows "ObjectId env (or_empty (req_id req)) = Inl e
           \<Longrightarrow> fetch env req s = (Inr (toError (query_msg e) 500), s2)"
    and "ObjectId env (or_empty (req_id req)) = Inr i \<Longrightarrow> deleteOne env i s2 = (Inl t, s3)
           \<Longrightarrow> fetch env req s = (outer_catch t, s3)"
  using assms(6)
  by (simp_all add: fetch_outer [OF assms(1-5)] outer_try_def DELETE_branch_def outer_catch_def)

text \<open>
  C2, as the claim states it, fails: the collection handle is taken on line 51, between
  the \<^verbatim>\<open>catch\<close> of the login and the outer \<^verbatim>\<open>try\<close>, so a value thrown there leaves the
  handler. Here the request has passed the path and the authentication checks.
\<close>

theorem handle_exception_uncaught:
  "fetch no_handle_remote (request_of ''GET'' None no_body) shop
     = (Inl (Thrown (Exn (Some ''no client''))), shop)"
  by (simp add: fetch_def no_handle_remote_def request_of_def strip_slash_def mem_remote_def
      mem_logIn_def)

text \<open>
  C2, amended. For a request that has passed the path and the authentication checks:
  a value thrown while the collection handle is taken leaves the handler uncaught. Once
  the handle is taken, a value thrown in the outer \<^verbatim>\<open>try\<close> outside the inner handlers of
  \<^verbatim>\<open>PATCH\<close> and \<^verbatim>\<open>PUT\<close> (by the identifier constructor, \<^verbatim>\<open>findOne\<close> or \<^verbatim>\<open>find\<close> under
  \<^verbatim>\<open>GET\<close>; by the body parser, the destructuring or \<^verbatim>\<open>insertOne\<close> under \<^verbatim>\<open>POST\<close>; by the
  identifier constructor or \<^verbatim>\<open>deleteOne\<close> under \<^verbatim>\<open>DELETE\<close>) reaches the outer \<^verbatim>\<open>catch\<close>.
  A thrown value other than \<^verbatim>\<open>null\<close> and \<^verbatim>\<open>undefined\<close> is answered 500 with its message
  when it has a non-empty one and with \<^verbatim>\<open>Error with query.\<close> otherwise. On a thrown
  \<^verbatim>\<open>null\<close> or \<^verbatim>\<open>undefined\<close> line 159 throws a TypeError inside the \<^verbatim>\<open>catch\<close>, which leaves
  the handler; that is the only value to leave it once the handle is taken.
\<close>

theorem outer_catch_500:
  assumes "strip_slash (req_pathname req) = ''/api/shopping_list''"
    and "req_authorization req = Some token" and "token \<noteq> []"
    and "logIn env token s = (Inr u, s1)"
  shows "(\<forall>t s2. collection env s1 = (Inl t, s2) \<longrightarrow> fetch env req s = (Inl t, s2))
    \<and> (\<forall>c s2. collection env s1 = (Inr c, s2) \<longrightarrow>
         ((\<exists>resp s3. fetch env req s = (Inr resp, s3))
          \<or> (\<exists>s3. fetch env req s = (Inl (Thrown cannot_read), s3)))
       \<and> (req_method req = ''GET'' \<longrightarrow>
            (\<forall>e. or_empty (req_id req) \<noteq> [] \<and> ObjectId env (or_empty (req_id req)) = Inl e
                \<longrightarrow> fetch env req s = (Inr (toError (query_msg e) 500), s2))
          \<and> (\<forall>i t s3. or_empty (req_id req) \<noteq> []
                \<and> ObjectId env (or_empty (req_id req)) = Inr i
                \<and> findOne env i s2 = (Inl t, s3)
                \<longrightarrow> fetch env req s = (outer_catch t, s3))
          \<and> (\<forall>t s3. or_empty (req_id req) = [] \<and> find_docs env s2 = (Inl t, s3)
                \<longrightarrow> fetch env req s = (outer_catch t, s3)))
       \<and> (req_method req = ''POST'' \<longrightarrow>
            (\<forall>t. req_json req = Inl t \<longrightarrow> fetch env req s = (outer_catch t, s2))
          \<and> (\<forall>b e. req_json req = Inr b \<and> destructure b = Inl e
                \<longrightarrow> fetch env req s = (Inr (toError (query_msg e) 500), s2))
          \<and> (\<forall>b n p q t s3. req_json req = Inr b \<and> destructure b = Inr (n, p, q)
                \<and> insertOne env (POST_document n p q) s2 = (Inl t, s3)
                \<longrightarrow> fetch env req s = (outer_catch t, s3)))
       \<and> (req_method req = ''DELETE'' \<longrightarrow>
            (\<forall>e. ObjectId env (or_empty (req_id req)) = Inl e
                \<longrightarrow> fetch env req s = (Inr (toError (query_msg e) 500), s2))
          \<and> (\<forall>i t s3. ObjectId env (or_empty (req_id req)) = Inr i
                \<and> deleteOne env i s2 = (Inl t, s3)
                \<longrightarrow> fetch env req s = (outer_catch t, s3))))
    \<and> (\<forall>e. outer_catch (Thrown e) = Inr (toError (query_msg e) 500))
    \<and> outer_catch Nullish = Inl (Thrown cannot_read)
    \<and> (\<forall>m. m \<noteq> [] \<longrightarrow> query_msg (Exn (Some m)) = m)
    \<and> query_msg (Exn (Some [])) = ''Error with query.''
    \<and> query_msg (Exn None) = ''Error with query.''
    \<and> (\<forall>msg. status (toError msg 500) = 500)"
proof (intro conjI allI impI)
  fix t s2 assume "collection env s1 = (Inl t, s2)"
  then show "fetch env req s = (Inl t, s2)"
    by (rule fetch_unhandled [OF assms])
next
  fix c s2 assume "collection env s1 = (Inr c, s2)"
  then show "(\<exists>resp s3. fetch env req s = (Inr resp, s3))
             \<or> (\<exists>s3. fetch env req s = (Inl (Thrown cannot_read), s3))"
    by (rule fetch_outcome [OF assms])
next
  fix c s2 e
  assume c: "collection env s1 = (Inr c, s2)" and m: "req_method req = ''GET''"
    and h: "or_empty (req_id req) \<noteq> [] \<and> ObjectId env (or_empty (req_id req)) = Inl e"
  show "fetch env req s = (Inr (toError (query_msg e) 500), s2)"
    by (rule GET_caught(1) [OF assms c m conjunct1 [OF h] conjunct2 [OF h]])
next
  fix c s2 i t s3
  assume c: "collection env s1 = (Inr c, s2)" and m: "req_method req = ''GET''"
    and h: "or_empty (req_id req) \<noteq> [] \<and> ObjectId env (or_empty (req_id req)) = Inr i
       \<and> findOne env i s2 = (Inl t, s3)"
  from h have h1: "or_empty (req_id req) \<noteq> []"
    and h2: "ObjectId env (or_empty (req_id req)) = Inr i"
    and h3: "findOne env i s2 = (Inl t, s3)"
    by simp_all
  show "fetch env req s = (outer_catch t, s3)"
    by (rule GET_caught(2) [OF assms c m h1 h2 h3])
next
  fix c s2 t s3
  assume c: "collection env s1 = (Inr c, s2)" and m: "req_method req = ''GET''"
    and h: "or_empty (req_id req) = [] \<and> find_docs env s2 = (Inl t, s3)"
  show "fetch env req s = (outer_catch t, s3)"
    by (rule GET_caught(3) [OF assms c m conjunct1 [OF h] conjunct2 [OF h]])
next
  fix c s2 t
  assume c: "collection env s1 = (Inr c, s2)" and m: "req_method req = ''POST''"
    and h: "req_json req = Inl t"
  show "fetch env req s = (outer_catch t, s2)"
    by (rule POST_caught(1) [OF assms c m h])
next
  fix c s2 b e
  assume c: "collection env s1 = (Inr c, s2)" and m: "req_method req = ''POST''"
    and h: "req_json req = Inr b \<and> destructure b = Inl e"
  show "fetch env req s = (Inr (toError (query_msg e) 500), s2)"
    by (rule POST_caught(2) [OF assms c m conjunct1 [OF h] conjunct2 [OF h]])
next
  fix c s2 b n p q t s3
  assume c: "collection env s1 = (Inr c, s2)" and m: "req_method req = ''POST''"
    and h: "req_json req = Inr b \<and> destructure b = Inr (n, p, q)
       \<and> insertOne env (POST_document n p q) s2 = (Inl t, s3)"
  from h have h1: "req_json req = Inr b" and h2: "destructure b = Inr (n, p, q)"
    and h3: "insertOne env (POST_document n p q) s2 = (Inl t, s3)"
    by simp_all
  show "fetch env req s = (outer_catch t, s3)"
    by (rule POST_caught(3) [OF assms c m h1 h2 h3])
next
  fix c s2 e
  assume c: "collection env s1 = (Inr c, s2)" and m: "req_method req = ''DELETE''"
    and h: "ObjectId env (or_empty (req_id req)) = Inl e"
  show "fetch env req s = (Inr (toError (query_msg e) 500), s2)"
    by (rule DELETE_caught(1) [OF assms c m h])
next
  fix c s2 i t s3
  assume c: "collection env s1 = (Inr c, s2)" and m: "req_method req = ''DELETE''"
    and h: "ObjectId env (or_empty (req_id req)) = Inr i \<and> deleteOne env i s2 = (Inl t, s3)"
  show "fetch env req s = (outer_catch t, s3)"
    by (rule DELETE_caught(2) [OF assms c m conjunct1 [OF h] conjunct2 [OF h]])
next
  fix e show "outer_catch (Thrown e) = Inr (toError (query_msg e) 500)"
    by (simp add: outer_catch_def)
next
  show "outer_catch Nullish = Inl (Thrown cannot_read)"
    by (simp add: outer_catch_def)
next
  fix m :: string assume "m \<noteq> []"
  then show "query_msg (Exn (Some m)) = m"
    by (simp add: query_msg_def)
next
  show "query_msg (Exn (Some [])) = ''Error with query.''"
    by (simp add: query_msg_def)
next
  show "query_msg (Exn None) = ''Error with query.''"
    by (simp add: query_msg_def)
next
  fix msg show "status (toError msg 500) = 500"
    by (rule status_toError)
qed

theorem outer_catch_500_witness:
  "fetch no_handle_remote (request_of ''DELETE'' (Some milk_id) no_body) shop
     = (Inl (Thrown (Exn (Some ''no client''))), shop)
   \<and> fetch (mem_remote [''secret'']) (request_of ''GET'' (Some ''milk'') no_body) shop
     = (Inr (toError ''Argument passed in must be a string of 24 hex characters'' 500), shop)
   \<and> fetch (mem_remote [''secret'']) (request_of ''POST'' None no_body) shop
     = (Inr (toError ''Unexpected end of JSON input'' 500), shop)
   \<and> fetch (mem_remote [''secret''])
       (request_of ''POST'' None (Inl (Thrown (Exn None)))) shop
     = (Inr (toError ''Error with query.'' 500), shop)
   \<and> fetch null_remote (request_of ''GET'' None no_body) shop
     = (Inl (Thrown cannot_read), shop)"
proof -
  have h: "logIn no_handle_remote ''secret'' shop = (Inr (), shop)"
    "collection no_handle_remote shop = (Inl (Thrown (Exn (Some ''no client''))), shop)"
    by (simp_all add: no_handle_remote_def mem_remote_def mem_logIn_def)
  note 1 = outer_catch_500 [OF strip_slash_request_of
      mem_session(1) [of "''DELETE''" "Some milk_id" no_body] secret_nonempty h(1),
      THEN conjunct1, THEN spec, THEN spec, THEN mp, OF h(2)]
  have g: "or_empty (req_id (request_of ''GET'' (Some ''milk'') no_body)) \<noteq> []
       \<and> ObjectId (mem_remote [''secret''])
           (or_empty (req_id (request_of ''GET'' (Some ''milk'') no_body))) = Inl bad_id"
    using mem_ObjectId_known(4) [of "[''secret'']"]
    by (simp add: request_of_simps or_empty_def)
  note 2 = outer_catch_500 [OF strip_slash_request_of
      mem_session(1) [of "''GET''" "Some ''milk''" no_body] secret_nonempty
      mem_session(2) [of shop],
      THEN conjunct2, THEN conjunct1, THEN spec, THEN spec, THEN mp, OF mem_session(3),
      THEN conjunct2, THEN conjunct1, THEN mp, OF request_of_simps(1),
      THEN conjunct1, THEN spec, THEN mp, OF g]
  have p: "req_json (request_of ''POST'' None no_body)
             = Inl (Thrown (Exn (Some ''Unexpected end of JSON input'')))"
    by (simp add: request_of_simps no_body_def)
  note 3 = outer_catch_500 [OF strip_slash_request_of
      mem_session(1) [of "''POST''" None no_body] secret_nonempty mem_session(2) [of shop],
      THEN conjunct2, THEN conjunct1, THEN spec, THEN spec, THEN mp, OF mem_session(3),
      THEN conjunct2, THEN conjunct2, THEN conjunct1, THEN mp, OF request_of_simps(1),
      THEN conjunct1, THEN spec, THEN mp, OF p]
  note 4 = outer_catch_500 [OF strip_slash_request_of
      mem_session(1) [of "''POST''" None "Inl (Thrown (Exn None))"] secret_nonempty
      mem_session(2) [of shop],
      THEN conjunct2, THEN conjunct1, THEN spec, THEN spec, THEN mp, OF mem_session(3),
      THEN conjunct2, THEN conjunct2, THEN conjunct1, THEN mp, OF request_of_simps(1),
      THEN conjunct1, THEN spec, THEN mp, OF request_of_simps(3)]
  have n: "logIn null_remote ''secret'' shop = (Inr (), shop)"
    "collection null_remote shop = (Inr (), shop)"
    "or_empty (req_id (request_of ''GET'' None no_body)) = []
       \<and> find_docs null_remote shop = (Inl Nullish, shop)"
    by (simp_all add: null_remote_def mem_remote_def mem_logIn_def request_of_simps or_empty_def)
  note 5 = outer_catch_500 [OF strip_slash_request_of
      mem_session(1) [of "''GET''" None no_body] secret_nonempty n(1),
      THEN conjunct2, THEN conjunct1, THEN spec, THEN spec, THEN mp, OF n(2),
      THEN conjunct2, THEN conjunct1, THEN mp, OF request_of_simps(1),
      THEN conjunct2, THEN conjunct2, THEN spec, THEN spec, THEN mp, OF n(3)]
  have q: "query_msg bad_id = ''Argument passed in must be a string of 24 hex characters''"
    "query_msg (Exn (Some ''Unexpected end of JSON input'')) = ''Unexpected end of JSON input''"
    "query_msg (Exn None) = ''Error with query.''"
    by (simp_all add: query_msg_def bad_id_def)
  show ?thesis
    using 1 2 3 4 5 by (simp add: q outer_catch_def)
qed

subsection \<open>Creating a document\<close>

text \<open>
  C3, as the claim states it, fails: \<^verbatim>\<open>purchased || false\<close> keeps a truthy value as it
  is. A \<^verbatim>\<open>POST\<close> with the body
  \<^verbatim>\<open>{"name": "Milk", "purchased": "yes", "quantity": "1L"}\<close> inserts a document whose
  \<^verbatim>\<open>purchased\<close> is the string \<^verbatim>\<open>"yes"\<close>.
\<close>

theorem post_purchased_string_inserted:
  "docs (snd (fetch (mem_remote [''secret''])
      (request_of ''POST'' None
         (Inr (JObj [(''name'', JStr ''Milk''), (''purchased'', JStr ''yes''),
                     (''quantity'', JStr ''1L'')])))
      \<lparr>docs = [], counter = 0\<rparr>))
     = [[(''_id'', JOid (OID ''000000000000000000000000'')), (''name'', JStr ''Milk''),
         (''purchased'', JStr ''yes''), (''quantity'', JStr ''1L'')]]
   \<and> \<not> is_boolean (JStr ''yes'')"
  by (simp add: fetch_def request_of_def strip_slash_def mem_remote_def mem_logIn_def
      outer_try_def POST_branch_def destructure_def POST_document_def mem_insertOne_def
      hex24_first Let_def)

text \<open>
  C3, amended. A \<^verbatim>\<open>POST\<close> that reaches the insert step inserts the document
  \<^verbatim>\<open>{name, purchased: purchased || false, quantity}\<close>: its \<^verbatim>\<open>purchased\<close> is \<^verbatim>\<open>false\<close> when
  the body's \<^verbatim>\<open>purchased\<close> is omitted or falsy, and otherwise it is the body's value
  itself, unchanged. So it is a boolean exactly when the body's value is omitted, falsy
  or \<^verbatim>\<open>true\<close>.
\<close>

theorem post_purchased_default:
  assumes "strip_slash (req_pathname req) = ''/api/shopping_list''"
    and "req_authorization req = Some token" and "token \<noteq> []"
    and "logIn env token s = (Inr u, s1)"
    and "collection env s1 = (Inr c, s2)"
    and "req_method req = ''POST''"
    and "req_json req = Inr b"
    and "destructure b = Inr (n, p, q)"
  shows "fetch env req s =
           (case insertOne env (POST_document n p q) s2 of
              (Inl e, s3) \<Rightarrow> (outer_catch e, s3)
            | (Inr r, s3) \<Rightarrow> (Inr (reply r), s3))
         \<and> (\<forall>kvs. b = JObj kvs \<and> map_of kvs ''purchased'' = None \<longrightarrow> p = JUndefined)
         \<and> (\<not> truthy p \<longrightarrow> map_of (POST_document n p q) ''purchased'' = Some (JBool False))
         \<and> (truthy p \<longrightarrow> map_of (POST_document n p q) ''purchased'' = Some p)
         \<and> (is_boolean (the (map_of (POST_document n p q) ''purchased''))
              = (\<not> truthy p \<or> p = JBool True))"
proof (intro conjI)
  show "fetch env req s =
           (case insertOne env (POST_document n p q) s2 of
              (Inl e, s3) \<Rightarrow> (outer_catch e, s3)
            | (Inr r, s3) \<Rightarrow> (Inr (reply r), s3))"
    using assms(6-8)
    by (simp add: fetch_outer [OF assms(1-5)] outer_try_def POST_branch_def
        split: prod.splits sum.splits)
  show "\<forall>kvs. b = JObj kvs \<and> map_of kvs ''purchased'' = None \<longrightarrow> p = JUndefined"
    using assms(8) by (auto simp add: destructure_def)
  show "is_boolean (the (map_of (POST_document n p q) ''purchased''))
          = (\<not> truthy p \<or> p = JBool True)"
    by (cases p) (simp_all add: POST_document_def)
qed (simp_all add: POST_document_def)

theorem post_purchased_default_witness:
  "fetch (mem_remote [''secret''])
      (request_of ''POST'' None
         (Inr (JObj [(''name'', JStr ''Milk''), (''quantity'', JStr ''1L'')])))
      \<lparr>docs = [], counter = 0\<rparr>
     = (Inr (reply (JObj [(''insertedId'', JOid (OID ''000000000000000000000000''))])),
        \<lparr>docs = [[(''_id'', JOid (OID ''000000000000000000000000'')), (''name'', JStr ''Milk''),
                  (''purchased'', JBool False), (''quantity'', JStr ''1L'')]],
         counter = 1\<rparr>)"
proof -
  let ?b = "JObj [(''name'', JStr ''Milk''), (''quantity'', JStr ''1L'')]"
  have d: "destructure ?b = Inr (JStr ''Milk'', JUndefined, JStr ''1L'')"
    by (simp add: destructure_def)
  have i: "insertOne (mem_remote [''secret''])
             (POST_document (JStr ''Milk'') JUndefined (JStr ''1L'')) \<lparr>docs = [], counter = 0\<rparr>
           = (Inr (JObj [(''insertedId'', JOid (OID ''000000000000000000000000''))]),
              \<lparr>docs = [[(''_id'', JOid (OID ''000000000000000000000000'')),
                        (''name'', JStr ''Milk''), (''purchased'', JBool False),
                        (''quantity'', JStr ''1L'')]],
               counter = 1\<rparr>)"
    by (simp add: mem_remote_def mem_insertOne_def POST_document_def hex24_first Let_def)
  from post_purchased_default [OF strip_slash_request_of mem_session(1) secret_nonempty
      mem_session(2,3) request_of_simps(1) request_of_simps(3) d]
  show ?thesis by (simp add: i)
qed

subsection \<open>Toggling an existing document\<close>

text \<open>
  For every remote: a \<^verbatim>\<open>PATCH\<close> whose lookup returns a document makes one write, the
  update \<^verbatim>\<open>{$set: {purchased: !existingDocument.purchased}}\<close>, and answers with its result.
\<close>

lemma PATCH_existing:
  assumes "strip_slash (req_pathname req) = ''/api/shopping_list''"
    and "req_authorization req = Some token" and "token \<noteq> []"
    and "logIn env token s = (Inr u, s1)"
    and "collection env s1 = (Inr c, s2)"
    and "req_method req = ''PATCH''"
    and "ObjectId env (or_empty (req_id req)) = Inr i"
    and "findOne env i s2 = (Inr (JObj d), s3)"
  shows "fetch env req s =
           (case updateOne env i
                   [(''purchased'',
                     JBool (\<not> truthy (case map_of d ''purchased'' of
                                         None \<Rightarrow> JUndefined | Some v \<Rightarrow> v)))] s3 of
              (Inl e, s4) \<Rightarrow> (Inr (toError ''Internal Server Error'' 500), s4)
            | (Inr r, s4) \<Rightarrow> (Inr (reply r), s4))"
  using assms(6-8)
  by (simp add: fetch_outer [OF assms(1-5)] outer_try_def PATCH_branch_def PATCH_try_def
      split: prod.splits sum.splits)

lemma has_id_purchased:
  "has_id i (assign [(''purchased'', v)] d) = has_id i d"
  by (simp add: has_id_def assign_def update_conv')

lemma find_set_first:
  "List.find (has_id i) ds = Some d \<Longrightarrow> has_id i (assign u d)
     \<Longrightarrow> List.find (has_id i) (set_first i u ds) = Some (assign u d)"
  by (induction ds) (auto split: if_splits)

lemma set_first_restore:
  "List.find (has_id i) ds = Some d \<Longrightarrow> has_id i (assign u d) \<Longrightarrow> assign w (assign u d) = d
     \<Longrightarrow> set_first i w (set_first i u ds) = ds"
  by (induction ds) (auto split: if_splits)

lemma mem_PATCH:
  assumes "strip_slash (req_pathname req) = ''/api/shopping_list''"
    and "req_authorization req = Some token" and "token \<noteq> []" and "token \<in> set keys"
    and "req_method req = ''PATCH''"
    and "mem_ObjectId (or_empty (req_id req)) = Inr i"
    and "List.find (has_id i) (docs s) = Some d"
  shows "fetch (mem_remote keys) req s =
           (Inr (reply (JObj
              [count_result ''matchedCount'' (list_ex (has_id i) (docs s)),
               count_result ''modifiedCount''
                 (set_first i [(''purchased'',
                     JBool (\<not> truthy (case map_of d ''purchased'' of
                                         None \<Rightarrow> JUndefined | Some v \<Rightarrow> v)))] (docs s)
                  \<noteq> docs s)])),
            s\<lparr>docs := set_first i [(''purchased'',
                     JBool (\<not> truthy (case map_of d ''purchased'' of
                                         None \<Rightarrow> JUndefined | Some v \<Rightarrow> v)))] (docs s)\<rparr>)"
proof -
  have l: "logIn (mem_remote keys) token s = (Inr (), s)"
    using assms(4) by (simp add: mem_remote_def mem_logIn_def)
  have c: "collection (mem_remote keys) s = (Inr (), s)"
    by (simp add: mem_remote_def)
  have i: "ObjectId (mem_remote keys) (or_empty (req_id req)) = Inr i"
    using assms(6) by (simp add: mem_remote_def)
  have f: "findOne (mem_remote keys) i s = (Inr (JObj d), s)"
    using assms(7) by (simp add: mem_remote_def mem_findOne_def)
  show ?thesis
    by (simp add: PATCH_existing [OF assms(1-3) l c assms(5) i f])
       (simp add: mem_remote_def mem_updateOne_def)
qed

text \<open>
  C5, as the claim states it, fails for a document whose \<^verbatim>\<open>purchased\<close> is not a boolean,
  such as the one a \<^verbatim>\<open>POST\<close> with \<^verbatim>\<open>"purchased": "yes"\<close> creates: the first \<^verbatim>\<open>PATCH\<close>
  writes \<^verbatim>\<open>false\<close>, the second \<^verbatim>\<open>true\<close>, and the original \<^verbatim>\<open>"yes"\<close> is not restored. Both
  requests succeed.
\<close>

theorem double_patch_keeps_no_string:
  "fst (fetch (mem_remote [''secret'']) (request_of ''PATCH'' (Some milk_id) no_body) yes_shop)
     = Inr (reply (JObj [(''matchedCount'', JNum 1), (''modifiedCount'', JNum 1)]))
   \<and> docs (snd (fetch (mem_remote [''secret'']) (request_of ''PATCH'' (Some milk_id) no_body)
        yes_shop))
     = [[(''_id'', JOid (OID milk_id)), (''name'', JStr ''Milk''),
         (''purchased'', JBool False), (''quantity'', JStr ''1L'')]]
   \<and> fst (fetch (mem_remote [''secret'']) (request_of ''PATCH'' (Some milk_id) no_body)
        (snd (fetch (mem_remote [''secret'']) (request_of ''PATCH'' (Some milk_id) no_body)
           yes_shop)))
     = Inr (reply (JObj [(''matchedCount'', JNum 1), (''modifiedCount'', JNum 1)]))
   \<and> docs (snd (fetch (mem_remote [''secret'']) (request_of ''PATCH'' (Some milk_id) no_body)
        (snd (fetch (mem_remote [''secret'']) (request_of ''PATCH'' (Some milk_id) no_body)
           yes_shop))))
     = [[(''_id'', JOid (OID milk_id)), (''name'', JStr ''Milk''),
         (''purchased'', JBool True), (''quantity'', JStr ''1L'')]]
   \<and> docs yes_shop
     = [[(''_id'', JOid (OID milk_id)), (''name'', JStr ''Milk''),
         (''purchased'', JStr ''yes''), (''quantity'', JStr ''1L'')]]"
proof -
  let ?M = "mem_remote [''secret'']"
  let ?P = "request_of ''PATCH'' (Some milk_id) no_body"
  let ?d1 = "[(''_id'', JOid (OID milk_id)), (''name'', JStr ''Milk''),
              (''purchased'', JBool False), (''quantity'', JStr ''1L'')]"
  let ?d2 = "[(''_id'', JOid (OID milk_id)), (''name'', JStr ''Milk''),
              (''purchased'', JBool True), (''quantity'', JStr ''1L'')]"
  let ?ok = "Inr (reply (JObj [(''matchedCount'', JNum 1), (''modifiedCount'', JNum 1)]))"
  have a: "req_authorization ?P = Some ''secret''" "''secret'' \<in> set [''secret'']"
    "req_method ?P = ''PATCH''"
    "mem_ObjectId (or_empty (req_id ?P)) = Inr (OID milk_id)"
    using mem_ObjectId_known(1) [of "[]"]
    by (simp_all add: request_of_def or_empty_def mem_remote_def milk_id_def)
  have f0: "List.find (has_id (OID milk_id)) (docs yes_shop) = Some yes_milk"
    by (simp add: yes_shop_def yes_milk_def has_id_def)
  have 1: "fetch ?M ?P yes_shop = (?ok, \<lparr>docs = [?d1], counter = 1\<rparr>)"
    by (simp add: mem_PATCH [OF strip_slash_request_of a(1) secret_nonempty a(2-4) f0])
       (simp add: yes_shop_def yes_milk_def has_id_def assign_def count_result_def)
  have f1: "List.find (has_id (OID milk_id)) (docs \<lparr>docs = [?d1], counter = 1\<rparr>) = Some ?d1"
    by (simp add: has_id_def)
  have 2: "fetch ?M ?P \<lparr>docs = [?d1], counter = 1\<rparr> = (?ok, \<lparr>docs = [?d2], counter = 1\<rparr>)"
    using mem_PATCH [OF strip_slash_request_of a(1) secret_nonempty a(2-4) f1]
    by (simp add: has_id_def assign_def count_result_def)
  show ?thesis
    using 1 2 by (simp add: yes_shop_def yes_milk_def)
qed

text \<open>
  C5, amended. On the reference store, a \<^verbatim>\<open>PATCH\<close> on the identifier of an existing
  document succeeds and writes exactly one field, \<^verbatim>\<open>purchased\<close>, with the negation of the
  truthiness of its current value; \<^verbatim>\<open>name\<close>, \<^verbatim>\<open>quantity\<close>, the identifier and every other
  field keep their values. After two such requests \<^verbatim>\<open>purchased\<close> is the truthiness of the
  original value, as a boolean; when the original value is a boolean, the two requests
  leave the store as it was.
\<close>

theorem patch_toggles_purchased:
  assumes "strip_slash (req_pathname req) = ''/api/shopping_list''"
    and "req_authorization req = Some token" and "token \<noteq> []" and "token \<in> set keys"
    and "req_method req = ''PATCH''"
    and "mem_ObjectId (or_empty (req_id req)) = Inr i"
    and "List.find (has_id i) (docs s) = Some d"
    and "p = (case map_of d ''purchased'' of None \<Rightarrow> JUndefined | Some v \<Rightarrow> v)"
  shows "(\<exists>r. fst (fetch (mem_remote keys) req s) = Inr (reply r))
    \<and> snd (fetch (mem_remote keys) req s)
        = s\<lparr>docs := set_first i [(''purchased'', JBool (\<not> truthy p))] (docs s)\<rparr>
    \<and> List.find (has_id i) (docs (snd (fetch (mem_remote keys) req s)))
        = Some (AList.update ''purchased'' (JBool (\<not> truthy p)) d)
    \<and> (\<forall>k v. k \<noteq> ''purchased'' \<longrightarrow> map_of (AList.update ''purchased'' v d) k = map_of d k)
    \<and> (\<exists>r. fst (fetch (mem_remote keys) req (snd (fetch (mem_remote keys) req s)))
              = Inr (reply r))
    \<and> List.find (has_id i)
         (docs (snd (fetch (mem_remote keys) req (snd (fetch (mem_remote keys) req s)))))
        = Some (AList.update ''purchased'' (JBool (truthy p)) d)
    \<and> (is_boolean p \<longrightarrow>
         snd (fetch (mem_remote keys) req (snd (fetch (mem_remote keys) req s))) = s)"
proof -
  let ?u = "[(''purchased'', JBool (\<not> truthy p))]"
  let ?w = "[(''purchased'', JBool (truthy p))]"
  let ?s' = "s\<lparr>docs := set_first i ?u (docs s)\<rparr>"
  have id: "has_id i d"
    using assms(7) by (induction "docs s") (auto simp add: find_Some_iff)
  have 1: "fetch (mem_remote keys) req s =
             (Inr (reply (JObj
                [count_result ''matchedCount'' (list_ex (has_id i) (docs s)),
                 count_result ''modifiedCount'' (set_first i ?u (docs s) \<noteq> docs s)])), ?s')"
    using mem_PATCH [OF assms(1-7)] by (simp add: assms(8))
  have f': "List.find (has_id i) (docs ?s') = Some (assign ?u d)"
    using find_set_first [OF assms(7), of ?u] id by (simp add: has_id_purchased)
  have p': "(case map_of (assign ?u d) ''purchased'' of None \<Rightarrow> JUndefined | Some v \<Rightarrow> v)
              = JBool (\<not> truthy p)"
    by (simp add: assign_def update_conv')
  have 2: "fetch (mem_remote keys) req ?s' =
             (Inr (reply (JObj
                [count_result ''matchedCount'' (list_ex (has_id i) (docs ?s')),
                 count_result ''modifiedCount'' (set_first i ?w (docs ?s') \<noteq> docs ?s')])),
              ?s'\<lparr>docs := set_first i ?w (docs ?s')\<rparr>)"
    using mem_PATCH [OF assms(1-6) f'] by (simp add: p')
  have g2: "List.find (has_id i) (set_first i ?w (docs ?s')) = Some (assign ?w (assign ?u d))"
    using find_set_first [OF f', of ?w] id by (simp add: has_id_purchased)
  have restored: "set_first i ?w (docs ?s') = docs s" if "is_boolean p"
  proof -
    from that obtain b where b: "p = JBool b" by (cases p) simp_all
    with assms(8) have m: "map_of d ''purchased'' = Some (JBool b)"
      by (simp split: option.splits)
    have "assign ?w (assign ?u d) = d"
      using b by (simp add: assign_def update_triv [OF m])
    with set_first_restore [OF assms(7), of ?u ?w] id show ?thesis
      by (simp add: has_id_purchased)
  qed
  show ?thesis
  proof (intro conjI allI impI)
    show "\<exists>r. fst (fetch (mem_remote keys) req s) = Inr (reply r)"
      by (simp add: 1) (rule exI, rule refl)
    show "snd (fetch (mem_remote keys) req s) = ?s'"
      by (simp add: 1)
    show "List.find (has_id i) (docs (snd (fetch (mem_remote keys) req s)))
            = Some (AList.update ''purchased'' (JBool (\<not> truthy p)) d)"
      using f' by (simp add: 1 assign_def)
    show "map_of (AList.update ''purchased'' v d) k = map_of d k" if "k \<noteq> ''purchased''" for k v
      using that by (simp add: update_conv')
    show "\<exists>r. fst (fetch (mem_remote keys) req (snd (fetch (mem_remote keys) req s)))
              = Inr (reply r)"
      by (simp add: 1 2) (rule exI, rule refl)
    show "List.find (has_id i)
           (docs (snd (fetch (mem_remote keys) req (snd (fetch (mem_remote keys) req s)))))
          = Some (AList.update ''purchased'' (JBool (truthy p)) d)"
      using g2 by (simp add: 1 2 assign_def)
    show "snd (fetch (mem_remote keys) req (snd (fetch (mem_remote keys) req s))) = s"
      if "is_boolean p"
      using restored [OF that] by (simp add: 1 2)
  qed
qed

theorem patch_toggles_purchased_witness:
  "docs (snd (fetch (mem_remote [''secret'']) (request_of ''PATCH'' (Some milk_id) no_body) shop))
     = [[(''_id'', JOid (OID milk_id)), (''name'', JStr ''Milk''),
         (''purchased'', JBool True), (''quantity'', JStr ''1L'')]]
   \<and> snd (fetch (mem_remote [''secret'']) (request_of ''PATCH'' (Some milk_id) no_body)
        (snd (fetch (mem_remote [''secret'']) (request_of ''PATCH'' (Some milk_id) no_body) shop)))
     = shop"
proof -
  let ?P = "request_of ''PATCH'' (Some milk_id) no_body"
  have a: "req_authorization ?P = Some ''secret''" "''secret'' \<in> set [''secret'']"
    "req_method ?P = ''PATCH''"
    "mem_ObjectId (or_empty (req_id ?P)) = Inr (OID milk_id)"
    using mem_ObjectId_known(1) [of "[]"]
    by (simp_all add: request_of_def or_empty_def mem_remote_def milk_id_def)
  have f: "List.find (has_id (OID milk_id)) (docs shop) = Some milk"
    by (simp add: shop_def milk_def has_id_def)
  have p: "(case map_of milk ''purchased'' of None \<Rightarrow> JUndefined | Some v \<Rightarrow> v) = JBool False"
    by (simp add: milk_def)
  note T = patch_toggles_purchased [OF strip_slash_request_of a(1) secret_nonempty a(2-4) f
      p [symmetric]]
  note 1 = T [THEN conjunct2, THEN conjunct1]
  note 2 = T [THEN conjunct2, THEN conjunct2, THEN conjunct2, THEN conjunct2, THEN conjunct2,
      THEN conjunct2]
  from 2 have 3:
    "snd (fetch (mem_remote [''secret'']) ?P (snd (fetch (mem_remote [''secret'']) ?P shop)))
       = shop"
    by simp
  have 4: "docs (shop\<lparr>docs := set_first (OID milk_id)
                      [(''purchased'', JBool (\<not> truthy (JBool False)))] (docs shop)\<rparr>)
           = [[(''_id'', JOid (OID milk_id)), (''name'', JStr ''Milk''),
               (''purchased'', JBool True), (''quantity'', JStr ''1L'')]]"
    by (simp add: shop_def milk_def has_id_def assign_def)
  have 5: "docs (snd (fetch (mem_remote [''secret'']) ?P shop))
           = [[(''_id'', JOid (OID milk_id)), (''name'', JStr ''Milk''),
               (''purchased'', JBool True), (''quantity'', JStr ''1L'')]]"
    by (simp only: 1 4)
  from 5 3 show ?thesis
    by (rule conjI)
qed

subsection \<open>Updating fields\<close>

text \<open>
  For every remote: a \<^verbatim>\<open>PUT\<close> whose body parses and whose identifier is accepted makes one
  call, \<^verbatim>\<open>updateOne\<close> with the update object, and answers with its result.
\<close>

lemma PUT_sends:
  assumes "strip_slash (req_pathname req) = ''/api/shopping_list''"
    and "req_authorization req = Some token" and "token \<noteq> []"
    and "logIn env token s = (Inr u, s1)"
    and "collection env s1 = (Inr c, s2)"
    and "req_method req = ''PUT''"
    and "req_json req = Inr b"
    and "destructure b = Inr (n, p, q)"
    and "ObjectId env (or_empty (req_id req)) = Inr i"
  shows "fetch env req s =
           (case updateOne env i (PUT_updateObject n p q) s2 of
              (Inl e, s3) \<Rightarrow> (Inr (toError ''Internal Server Error'' 500), s3)
            | (Inr r, s3) \<Rightarrow> (Inr (reply r), s3))"
  using assms(6-9)
  by (simp add: fetch_outer [OF assms(1-5)] outer_try_def PUT_branch_def PUT_try_def
      split: prod.splits sum.splits)

text \<open>
  C1. The update object of \<^verbatim>\<open>PUT\<close> always has the four properties \<^verbatim>\<open>name\<close>,
  \<^verbatim>\<open>purchased\<close>, \<^verbatim>\<open>quantity\<close> and \<^verbatim>\<open>_id\<close>: the object literal sets them all, to
  \<^verbatim>\<open>undefined\<close> where the body has no value, and the three guarded assignments change
  nothing. With the body \<^verbatim>\<open>{"quantity": "2L"}\<close> the handler hands \<^verbatim>\<open>updateOne\<close> the object
  \<^verbatim>\<open>{name: undefined, purchased: undefined, quantity: "2L", _id: undefined}\<close>, not an
  object with the property \<^verbatim>\<open>quantity\<close> alone.
\<close>

theorem put_update_object_has_every_key:
  "PUT_updateObject name purchased quantity
     = [(''name'', name), (''purchased'', purchased), (''quantity'', quantity),
        (''_id'', JUndefined)]
   \<and> fetch echo_remote
       (request_of ''PUT'' (Some milk_id) (Inr (JObj [(''quantity'', JStr ''2L'')]))) shop
     = (Inr (reply (JObj [(''name'', JUndefined), (''purchased'', JUndefined),
                          (''quantity'', JStr ''2L''), (''_id'', JUndefined)])), shop)"
proof
  show u: "PUT_updateObject name purchased quantity
     = [(''name'', name), (''purchased'', purchased), (''quantity'', quantity),
        (''_id'', JUndefined)]" for name purchased quantity
    by (simp add: PUT_updateObject_def Let_def)
  let ?R = "request_of ''PUT'' (Some milk_id) (Inr (JObj [(''quantity'', JStr ''2L'')]))"
  have l: "logIn echo_remote ''secret'' shop = (Inr (), shop)"
    "collection echo_remote shop = (Inr (), shop)"
    by (simp_all add: echo_remote_def mem_remote_def mem_logIn_def)
  have d: "destructure (JObj [(''quantity'', JStr ''2L'')])
             = Inr (JUndefined, JUndefined, JStr ''2L'')"
    by (simp add: destructure_def)
  have i: "ObjectId echo_remote (or_empty (req_id ?R)) = Inr (OID milk_id)"
    using mem_ObjectId_known(1) [of "[''secret'']"]
    by (simp add: echo_remote_def request_of_simps or_empty_def milk_id_def)
  show "fetch echo_remote ?R shop
     = (Inr (reply (JObj [(''name'', JUndefined), (''purchased'', JUndefined),
                          (''quantity'', JStr ''2L''), (''_id'', JUndefined)])), shop)"
    by (simp add: PUT_sends [OF strip_slash_request_of mem_session(1) secret_nonempty l
          request_of_simps(1) request_of_simps(3) d i] u)
       (simp add: echo_remote_def)
qed

end
